theory Spec2Isabelle
  imports Main "HOL-Library.Log_Nat"
begin

section \<open>JavaScript values used by the server and the client\<close>

subsection \<open>Numbers\<close>

text \<open>
  A JavaScript number is an IEEE 754 binary64 value. The model keeps the three kinds the
  program distinguishes (\<open>Number.isNaN\<close>, overflow to infinity, finite values) and
  holds a finite value as the exact rational it denotes. The two zeros are one value
  \<open>Fin 0\<close>: nothing in the program tells them apart (\<open>String(-0)\<close> is \<open>"0"\<close>, the
  database compares them equal, \<open>JSON.stringify(-0)\<close> is \<open>"0"\<close>).
\<close>

datatype jsnum = NaN | PosInf | NegInf | Fin rat

definition isNaN :: "jsnum \<Rightarrow> bool" where
  "isNaN n = (case n of NaN \<Rightarrow> True | _ \<Rightarrow> False)"

definition isFinite :: "jsnum \<Rightarrow> bool" where
  "isFinite n = (case n of Fin _ \<Rightarrow> True | _ \<Rightarrow> False)"

text \<open>
  \<open>ilog2 a\<close>, for \<open>a > 0\<close>, is the exponent \<open>e\<close> with \<open>2 ^ e \<le> a < 2 ^ (e + 1)\<close>
  (\<open>powi\<close> is the power with an integer exponent). With \<open>a = n / d\<close> the difference
  of the bit lengths of \<open>n\<close> and \<open>d\<close> is \<open>e\<close> or \<open>e + 1\<close>.
\<close>

definition ilog2 :: "rat \<Rightarrow> int" where
  "ilog2 a =
     (let (n, d) = quotient_of a;
          e0 = bitlen n - bitlen d
      in if 2 powi e0 \<le> a then e0 else e0 - 1)"

text \<open>Rounding to the nearest integer, a tie going to the even neighbour.\<close>

definition round_half_even :: "rat \<Rightarrow> int" where
  "round_half_even q =
     (let f = \<lfloor>q\<rfloor>; r = q - of_int f
      in if r < 1 / 2 then f
         else if 1 / 2 < r then f + 1
         else if even f then f else f + 1)"

text \<open>
  The binary64 value of a rational: 53 significant bits, round to nearest with ties to
  even, gradual underflow below \<open>2 ^ -1022\<close> (spacing \<open>2 ^ -1074\<close>), and infinity once
  the rounded magnitude reaches \<open>2 ^ 1024\<close>.
\<close>

definition to_double :: "rat \<Rightarrow> jsnum" where
  "to_double q =
     (if q = 0 then Fin 0
      else
        let a = \<bar>q\<bar>;
            e = max (ilog2 a) (- 1022);
            u = 2 powi (e - 52);
            r = of_int (round_half_even (a / u)) * u
        in if 2 powi 1024 \<le> r then (if q < 0 then NegInf else PosInf)
           else Fin (if q < 0 then - r else r))"

text \<open>The \<open>*\<close> operator on two numbers.\<close>

fun js_mul :: "jsnum \<Rightarrow> jsnum \<Rightarrow> jsnum" where
  "js_mul NaN _ = NaN"
| "js_mul _ NaN = NaN"
| "js_mul (Fin a) (Fin b) = to_double (a * b)"
| "js_mul (Fin a) PosInf = (if a = 0 then NaN else if a < 0 then NegInf else PosInf)"
| "js_mul (Fin a) NegInf = (if a = 0 then NaN else if a < 0 then PosInf else NegInf)"
| "js_mul PosInf (Fin b) = (if b = 0 then NaN else if b < 0 then NegInf else PosInf)"
| "js_mul NegInf (Fin b) = (if b = 0 then NaN else if b < 0 then PosInf else NegInf)"
| "js_mul PosInf PosInf = PosInf"
| "js_mul PosInf NegInf = NegInf"
| "js_mul NegInf PosInf = NegInf"
| "js_mul NegInf NegInf = PosInf"

text \<open>\<open>Math.min\<close> of two numbers: \<open>NaN\<close> when either is \<open>NaN\<close>.\<close>

fun Math_min :: "jsnum \<Rightarrow> jsnum \<Rightarrow> jsnum" where
  "Math_min NaN _ = NaN"
| "Math_min _ NaN = NaN"
| "Math_min NegInf _ = NegInf"
| "Math_min _ NegInf = NegInf"
| "Math_min PosInf b = b"
| "Math_min a PosInf = a"
| "Math_min (Fin a) (Fin b) = Fin (min a b)"

subsection \<open>Strings\<close>

text \<open>
  A string is a list of code units; \<open>char\<close> holds the code units up to U+00FF, so strings
  with a code unit beyond that are outside the model. The white space and line terminators
  of the language in that range are TAB, LF, VT, FF, CR, SP and NBSP;
  \<open>String.prototype.trim\<close> and the conversion of a string to a number strip them at both
  ends.
\<close>

definition is_ws :: "char \<Rightarrow> bool" where
  "is_ws c = ((of_char c :: nat) \<in> {9, 10, 11, 12, 13, 32, 160})"

definition trim :: "string \<Rightarrow> string" where
  "trim s = rev (dropWhile is_ws (rev (dropWhile is_ws s)))"

definition is_digit :: "char \<Rightarrow> bool" where
  "is_digit c = (48 \<le> (of_char c :: nat) \<and> (of_char c :: nat) \<le> 57)"

definition digit_val :: "char \<Rightarrow> nat" where
  "digit_val c =
     (let n = of_char c :: nat
      in if 48 \<le> n \<and> n \<le> 57 then n - 48
         else if 97 \<le> n \<and> n \<le> 102 then n - 87
         else if 65 \<le> n \<and> n \<le> 70 then n - 55
         else 0)"

definition is_digit_of :: "nat \<Rightarrow> char \<Rightarrow> bool" where
  "is_digit_of base c =
     (let n = of_char c :: nat
      in (48 \<le> n \<and> n \<le> 57 \<and> n - 48 < base)
         \<or> (base = 16 \<and> ((97 \<le> n \<and> n \<le> 102) \<or> (65 \<le> n \<and> n \<le> 70))))"

definition digits_val :: "nat \<Rightarrow> string \<Rightarrow> nat" where
  "digits_val base ds = foldl (\<lambda>acc c. acc * base + digit_val c) 0 ds"

text \<open>
  The syntactic result of reading a numeric string: no literal, an infinity, or a
  literal with its mathematical value.
\<close>

datatype literal = NoLiteral | InfLiteral | MV rat

text \<open>\<open>ExponentPart\<close>: nothing, or \<open>e\<close>/\<open>E\<close>, an optional sign and at least one digit.\<close>

definition exponent_part :: "string \<Rightarrow> int option" where
  "exponent_part s =
     (case s of
        [] \<Rightarrow> Some 0
      | c # t \<Rightarrow>
          if c = CHR ''e'' \<or> c = CHR ''E'' then
            (let (neg, ds) =
                   (case t of
                      [] \<Rightarrow> (False, [])
                    | d # t' \<Rightarrow>
                        if d = CHR ''-'' then (True, t')
                        else if d = CHR ''+'' then (False, t')
                        else (False, t))
             in if ds \<noteq> [] \<and> list_all is_digit ds
                then Some (if neg then - int (digits_val 10 ds) else int (digits_val 10 ds))
                else None)
          else None)"

text \<open>
  \<open>StrUnsignedDecimalLiteral\<close>: \<open>Infinity\<close>, or digits with an optional fraction and an
  optional exponent, with a digit on at least one side of the point.
\<close>

definition unsigned_decimal :: "string \<Rightarrow> literal" where
  "unsigned_decimal s =
     (if s = ''Infinity'' then InfLiteral
      else
        let ip = takeWhile is_digit s;
            r1 = dropWhile is_digit s;
            (fp, r2) =
              (case r1 of
                 [] \<Rightarrow> ([], [])
               | c # t \<Rightarrow>
                   if c = CHR ''.'' then (takeWhile is_digit t, dropWhile is_digit t)
                   else ([], r1))
        in if ip = [] \<and> fp = [] then NoLiteral
           else
             (case exponent_part r2 of
                None \<Rightarrow> NoLiteral
              | Some e \<Rightarrow>
                  MV (of_nat (digits_val 10 (ip @ fp))
                      * (let k = e - int (length fp)
                         in if 0 \<le> k then 10 ^ nat k else 1 / 10 ^ nat (- k)))))"

text \<open>\<open>NonDecimalIntegerLiteral\<close>: \<open>0b\<close>, \<open>0o\<close> or \<open>0x\<close> (either case), then digits of the base.\<close>

definition non_decimal :: "string \<Rightarrow> literal" where
  "non_decimal s =
     (case s of
        z # p # ds \<Rightarrow>
          (let base =
                 (if p = CHR ''x'' \<or> p = CHR ''X'' then 16
                  else if p = CHR ''o'' \<or> p = CHR ''O'' then 8
                  else if p = CHR ''b'' \<or> p = CHR ''B'' then 2
                  else 0 :: nat)
           in if z = CHR ''0'' \<and> base \<noteq> 0 \<and> ds \<noteq> [] \<and> list_all (is_digit_of base) ds
              then MV (of_nat (digits_val base ds))
              else NoLiteral)
      | _ \<Rightarrow> NoLiteral)"

text \<open>
  \<open>StringToNumber\<close>: the trimmed string is empty (the number 0), a non-decimal integer,
  or a decimal with an optional sign; anything else is \<open>NaN\<close>. The mathematical value of
  a literal is rounded to binary64 exactly.
\<close>

definition StringToNumber :: "string \<Rightarrow> jsnum" where
  "StringToNumber s =
     (let t = trim s in
      if t = [] then Fin 0
      else
        (case non_decimal t of
           MV v \<Rightarrow> to_double v
         | _ \<Rightarrow>
            (let (neg, u) =
                   (if hd t = CHR ''-'' then (True, tl t)
                    else if hd t = CHR ''+'' then (False, tl t)
                    else (False, t))
             in case unsigned_decimal u of
                  NoLiteral \<Rightarrow> NaN
                | InfLiteral \<Rightarrow> (if neg then NegInf else PosInf)
                | MV v \<Rightarrow> to_double (if neg then - v else v))))"

subsection \<open>Values read from requests and replies\<close>

text \<open>
  The scalar values of the language. A property that is absent reads as \<open>JUndefined\<close>.
  Array- and object-valued fields are not modelled: composite data is typed by the
  records below.
\<close>

datatype jsval = JUndefined | JNull | JBool bool | JNum jsnum | JStr string

text \<open>\<open>!v\<close> is \<open>\<not> truthy v\<close>.\<close>

fun truthy :: "jsval \<Rightarrow> bool" where
  "truthy JUndefined = False"
| "truthy JNull = False"
| "truthy (JBool b) = b"
| "truthy (JNum n) = (n \<noteq> NaN \<and> n \<noteq> Fin 0)"
| "truthy (JStr s) = (s \<noteq> [])"

fun typeof :: "jsval \<Rightarrow> string" where
  "typeof JUndefined = ''undefined''"
| "typeof JNull = ''object''"
| "typeof (JBool b) = ''boolean''"
| "typeof (JNum n) = ''number''"
| "typeof (JStr s) = ''string''"

text \<open>\<open>Number(v)\<close> and unary \<open>+v\<close>.\<close>

fun ToNumber :: "jsval \<Rightarrow> jsnum" where
  "ToNumber JUndefined = NaN"
| "ToNumber JNull = Fin 0"
| "ToNumber (JBool b) = (if b then Fin 1 else Fin 0)"
| "ToNumber (JNum n) = n"
| "ToNumber (JStr s) = StringToNumber s"

text \<open>\<open>a === b\<close> on scalars: equal values, except that \<open>NaN\<close> equals nothing.\<close>

definition strict_eq :: "jsval \<Rightarrow> jsval \<Rightarrow> bool" where
  "strict_eq a b = (a = b \<and> a \<noteq> JNum NaN)"

section \<open>The server\<close>

subsection \<open>Requests, responses and the external services\<close>

text \<open>
  \<open>req.query\<close>: each parameter is a string or absent. (Repeated and bracketed
  parameters, which the query parser turns into arrays and objects, are not modelled.)
\<close>

record query =
  query_q :: "string option"
  query_lat :: "string option"
  query_lon :: "string option"
  query_tz :: "string option"

definition param :: "string option \<Rightarrow> jsval" where
  "param p = (case p of None \<Rightarrow> JUndefined | Some s \<Rightarrow> JStr s)"

text \<open>\<open>p || d\<close> for a string parameter: the default when absent or empty.\<close>

definition or_default :: "string option \<Rightarrow> string \<Rightarrow> string" where
  "or_default p d = (case p of None \<Rightarrow> d | Some s \<Rightarrow> if s = [] then d else s)"

text \<open>The parameters of a request to the place-search service.\<close>

record nominatim_params =
  search_q :: string
  format :: string
  addressdetails :: "nat option"
  limit :: nat

text \<open>The parameters of a request to the forecast service.\<close>

record forecast_params =
  latitude :: jsnum
  longitude :: jsnum
  current_vars :: string
  hourly_vars :: "string option"
  daily_vars :: string
  timezone :: string
  forecast_days :: nat

datatype call = Nominatim nominatim_params | OpenMeteo forecast_params

text \<open>
  What \<open>await axios.get\<close> gives: \<open>Failed\<close> when the promise rejects (network error,
  status outside 2xx), \<open>Replied d\<close> with the decoded payload otherwise.
\<close>

datatype 'a reply = Failed | Replied 'a

text \<open>
  One record of the place-search reply. The reply is a JSON array of such records; a
  payload of another shape is outside the model.
\<close>

record nominatim_row =
  display_name :: jsval
  row_lat :: jsval
  row_lon :: jsval

record place =
  name :: jsval
  lat :: jsnum
  lon :: jsnum

text \<open>
  A stored text: a string, or the decimal text of a number (\<open>String(n)\<close>), which the
  model does not spell out.
\<close>

datatype stored_text = Text string | NumberText jsnum

text \<open>
  A stored document of the \<open>Favorite\<close> model (\<open>timestamps: true\<close>); a path that was not
  set is \<open>None\<close>.
\<close>

record favorite =
  fav_id :: string
  fav_name :: "stored_text option"
  fav_lat :: jsnum
  fav_lon :: jsnum
  createdAt :: nat
  updatedAt :: nat

text \<open>
  The value handed to \<open>res.json\<close>; \<open>'f\<close> is the forecast payload, passed through as it
  came. \<open>Ack\<close> is \<open>{ok: true}\<close>, \<open>Error m\<close> is \<open>{error: m}\<close>.
\<close>

datatype 'f body =
    Error string
  | Places "place list"
  | Forecast 'f
  | Search place 'f
  | Fav favorite
  | Ack

record 'f response =
  status :: nat
  body :: "'f body"

definition res_json :: "'f body \<Rightarrow> 'f response" where
  "res_json b = \<lparr>status = 200, body = b\<rparr>"

definition res_status_json :: "nat \<Rightarrow> 'f body \<Rightarrow> 'f response" where
  "res_status_json n b = \<lparr>status = n, body = b\<rparr>"

definition place_of :: "nominatim_row \<Rightarrow> place" where
  "place_of r = \<lparr>name = display_name r, lat = ToNumber (row_lat r), lon = ToNumber (row_lon r)\<rparr>"

subsection \<open>GET /api/geocode\<close>

text \<open>
  Every handler returns its response with the list of requests it sent to the external
  services, in order. The services are functions from a request to its reply.
\<close>

definition geocode ::
  "(nominatim_params \<Rightarrow> nominatim_row list reply) \<Rightarrow> query \<Rightarrow> 'f response \<times> call list" where
  "geocode nominatim req =
     (let q = trim (or_default (query_q req) [])
      in if q = [] then (res_json (Places []), [])
         else
           let p = \<lparr>search_q = q, format = ''json'', addressdetails = Some 1, limit = 5\<rparr>
           in case nominatim p of
                Failed \<Rightarrow> (res_status_json 500 (Error ''Geocoding failed''), [Nominatim p])
              | Replied data \<Rightarrow> (res_json (Places (map place_of data)), [Nominatim p]))"

subsection \<open>GET /api/forecast\<close>

definition forecast ::
  "(forecast_params \<Rightarrow> 'f reply) \<Rightarrow> query \<Rightarrow> 'f response \<times> call list" where
  "forecast open_meteo req =
     (let lat = ToNumber (param (query_lat req));
          lon = ToNumber (param (query_lon req));
          tz = or_default (query_tz req) ''auto''
      in if isNaN lat \<or> isNaN lon
         then (res_status_json 400 (Error ''lat/lon required''), [])
         else
           let p = \<lparr>latitude = lat, longitude = lon,
                    current_vars =
                      ''temperature_2m,relative_humidity_2m,apparent_temperature,wind_speed_10m,precipitation'',
                    hourly_vars =
                      Some ''temperature_2m,precipitation,relative_humidity_2m,wind_speed_10m'',
                    daily_vars =
                      ''weathercode,temperature_2m_max,temperature_2m_min,precipitation_sum,uv_index_max,wind_speed_10m_max'',
                    timezone = tz, forecast_days = 7\<rparr>
           in case open_meteo p of
                Failed \<Rightarrow> (res_status_json 500 (Error ''Forecast failed''), [OpenMeteo p])
              | Replied data \<Rightarrow> (res_json (Forecast data), [OpenMeteo p]))"

subsection \<open>GET /api/searchWeather\<close>

definition searchWeather ::
  "(nominatim_params \<Rightarrow> nominatim_row list reply) \<Rightarrow> (forecast_params \<Rightarrow> 'f reply)
     \<Rightarrow> query \<Rightarrow> 'f response \<times> call list" where
  "searchWeather nominatim open_meteo req =
     (let q = trim (or_default (query_q req) []);
          tz = or_default (query_tz req) ''auto''
      in if q = [] then (res_status_json 400 (Error ''q required''), [])
         else
           let gp = \<lparr>search_q = q, format = ''json'', addressdetails = None, limit = 1\<rparr>
           in case nominatim gp of
                Failed \<Rightarrow> (res_status_json 500 (Error ''Search failed''), [Nominatim gp])
              | Replied data \<Rightarrow>
                  (case data of
                     [] \<Rightarrow> (res_status_json 404 (Error ''Place not found''), [Nominatim gp])
                   | r # _ \<Rightarrow>
                       let place = place_of r;
                           fp = \<lparr>latitude = lat place, longitude = lon place,
                                 current_vars =
                                   ''temperature_2m,relative_humidity_2m,apparent_temperature,wind_speed_10m,precipitation'',
                                 hourly_vars = None,
                                 daily_vars =
                                   ''weathercode,temperature_2m_max,temperature_2m_min,precipitation_sum,uv_index_max,wind_speed_10m_max'',
                                 timezone = tz, forecast_days = 7\<rparr>
                       in (case open_meteo fp of
                             Failed \<Rightarrow>
                               (res_status_json 500 (Error ''Search failed''),
                                [Nominatim gp, OpenMeteo fp])
                           | Replied f \<Rightarrow>
                               (res_json (Search place f), [Nominatim gp, OpenMeteo fp]))))"

text \<open>
  A comma-separated parameter names a set of variables of the forecast service.
\<close>

fun csv :: "string \<Rightarrow> string list" where
  "csv [] = [[]]"
| "csv (c # cs) =
     (if c = CHR '','' then [] # csv cs
      else (case csv cs of [] \<Rightarrow> [[c]] | w # ws \<Rightarrow> (c # w) # ws))"

definition variables :: "string \<Rightarrow> string set" where
  "variables s = set (csv s)"

subsection \<open>The favorites\<close>

text \<open>
  The collection is the list of its documents in insertion order. What the database and
  the object-document mapper decide on their own is the environment of a request: whether
  an operation fails, and the identifier and the time given to a new document.
\<close>

type_synonym store = "favorite list"

record mongo_env =
  find_fails :: bool
  create_fails :: bool
  delete_fails :: bool
  new_id :: string
  now :: nat

text \<open>
  \<open>const { name, lat, lon } = req.body || {}\<close>: the three properties read, \<open>JUndefined\<close>
  when the body has no such property or there is no body. (The body is decoded from JSON
  text, which has no \<open>NaN\<close>.)
\<close>

record fav_body =
  body_name :: jsval
  body_lat :: jsval
  body_lon :: jsval

text \<open>
  The cast of a schema \<open>String\<close> path: the text of a scalar; \<open>null\<close> and \<open>undefined\<close> set
  nothing.
\<close>

fun castString :: "jsval \<Rightarrow> stored_text option" where
  "castString (JStr s) = Some (Text s)"
| "castString (JBool b) = Some (Text (if b then ''true'' else ''false''))"
| "castString (JNum n) = Some (NumberText n)"
| "castString JNull = None"
| "castString JUndefined = None"

text \<open>
  \<open>Favorite.findOne({ lat, lon })\<close>: the first document with both coordinates equal to
  the query's. (A schema \<open>Number\<close> path leaves a number as it is.)
\<close>

definition findOne :: "mongo_env \<Rightarrow> store \<Rightarrow> jsval \<Rightarrow> jsval \<Rightarrow> favorite option reply" where
  "findOne env db la lo =
     (if find_fails env then Failed
      else Replied (find (\<lambda>f. fav_lat f = ToNumber la \<and> fav_lon f = ToNumber lo) db))"

definition create ::
  "mongo_env \<Rightarrow> store \<Rightarrow> jsval \<Rightarrow> jsval \<Rightarrow> jsval \<Rightarrow> (favorite \<times> store) reply" where
  "create env db nm la lo =
     (if create_fails env then Failed
      else
        let fav = \<lparr>fav_id = new_id env, fav_name = castString nm,
                   fav_lat = ToNumber la, fav_lon = ToNumber lo,
                   createdAt = now env, updatedAt = now env\<rparr>
        in Replied (fav, db @ [fav]))"

text \<open>
  \<open>Favorite.findByIdAndDelete(id)\<close>: the first document with that identifier goes. An
  identifier is the text of an \<open>ObjectId\<close>, compared as text.
\<close>

fun remove_by_id :: "string \<Rightarrow> store \<Rightarrow> store" where
  "remove_by_id i [] = []"
| "remove_by_id i (f # fs) = (if fav_id f = i then fs else f # remove_by_id i fs)"

subsection \<open>POST /api/favorites\<close>

definition post_favorites :: "mongo_env \<Rightarrow> fav_body \<Rightarrow> store \<Rightarrow> 'f response \<times> store" where
  "post_favorites env b db =
     (let name = body_name b; lat = body_lat b; lon = body_lon b
      in if \<not> truthy name \<or> typeof lat \<noteq> ''number'' \<or> typeof lon \<noteq> ''number''
         then (res_status_json 400 (Error ''name, lat, lon required''), db)
         else
           (case findOne env db lat lon of
              Failed \<Rightarrow> (res_status_json 500 (Error ''Save failed''), db)
            | Replied (Some existing) \<Rightarrow> (res_json (Fav existing), db)
            | Replied None \<Rightarrow>
                (case create env db name lat lon of
                   Failed \<Rightarrow> (res_status_json 500 (Error ''Save failed''), db)
                 | Replied (fav, db') \<Rightarrow> (res_json (Fav fav), db'))))"

subsection \<open>DELETE /api/favorites/:id\<close>

text \<open>A failure of the removal is swallowed by \<open>.catch(() => {})\<close>.\<close>

definition delete_favorite :: "mongo_env \<Rightarrow> string \<Rightarrow> store \<Rightarrow> 'f response \<times> store" where
  "delete_favorite env i db =
     (res_json Ack, if delete_fails env then db else remove_by_id i db)"

section \<open>The client\<close>

subsection \<open>The seven-day panel\<close>

text \<open>
  The \<open>daily\<close> part of a forecast: parallel arrays of scalars. The first four are read
  without a guard and are taken to be there; the last two are read with \<open>?.\<close> and may be
  absent.
\<close>

record daily_json =
  time :: "jsval list"
  temperature_2m_max :: "jsval list"
  temperature_2m_min :: "jsval list"
  precipitation_sum :: "jsval list"
  uv_index_max :: "jsval list option"
  wind_speed_10m_max :: "jsval list option"

record forecast_json =
  daily_part :: "daily_json option"

record day =
  date :: jsval
  tmax :: jsval
  tmin :: jsval
  precip :: jsval
  uv :: jsval
  windmax :: jsval

text \<open>\<open>xs[i]\<close>: \<open>undefined\<close> beyond the end.\<close>

definition index :: "jsval list \<Rightarrow> nat \<Rightarrow> jsval" where
  "index xs i = (if i < length xs then xs ! i else JUndefined)"

text \<open>\<open>xs?.[i]\<close>.\<close>

definition opt_index :: "jsval list option \<Rightarrow> nat \<Rightarrow> jsval" where
  "opt_index xs i = (case xs of None \<Rightarrow> JUndefined | Some ys \<Rightarrow> index ys i)"

definition daily :: "forecast_json option \<Rightarrow> day list" where
  "daily fc =
     (case fc of
        None \<Rightarrow> []
      | Some f \<Rightarrow>
          (case daily_part f of
             None \<Rightarrow> []
           | Some d \<Rightarrow>
               map (\<lambda>(i, t). \<lparr>date = t,
                              tmax = index (temperature_2m_max d) i,
                              tmin = index (temperature_2m_min d) i,
                              precip = index (precipitation_sum d) i,
                              uv = opt_index (uv_index_max d) i,
                              windmax = opt_index (wind_speed_10m_max d) i\<rparr>)
                 (enumerate 0 (time d))))"

text \<open>
  The \<open>height\<close> style of a day's bar, \<open>Math.min(100, d.precip * 10) + "%"\<close>: the number
  before the percent sign.
\<close>

datatype css_height = Percent jsnum

definition bar_height :: "day \<Rightarrow> css_height" where
  "bar_height d = Percent (Math_min (Fin 100) (js_mul (ToNumber (precip d)) (Fin 10)))"

subsection \<open>Saving a favorite\<close>

text \<open>
  An entry of the client's \<open>favs\<close> list, and the decoded reply of the save request: its
  \<open>_id\<close> (absent in an error reply) and the rest of the object.
\<close>

record 'a fav_json =
  id_field :: jsval
  rest :: 'a

text \<open>
  The update handed to \<open>setFavs\<close>:
  \<open>(p) => p.some(f => f._id === data._id) ? p : [data, ...p]\<close>
\<close>

definition save_update :: "'a fav_json \<Rightarrow> 'a fav_json list \<Rightarrow> 'a fav_json list" where
  "save_update data p =
     (if list_ex (\<lambda>f. strict_eq (id_field f) (id_field data)) p then p else data # p)"

text \<open>
  \<open>saveFavorite\<close>, from the selected place, the decoded reply \<open>data\<close> of the save request
  and the list \<open>p\<close> of favorites to the new list: nothing happens without a selected place,
  and the update is applied only \<open>if (data?._id)\<close>.
\<close>

definition saveFavorite :: "place option \<Rightarrow> 'a fav_json \<Rightarrow> 'a fav_json list \<Rightarrow> 'a fav_json list" where
  "saveFavorite selected data p =
     (case selected of
        None \<Rightarrow> p
      | Some _ \<Rightarrow> if truthy (id_field data) then save_update data p else p)"

text \<open>No two entries have identifiers that \<open>===\<close> holds of.\<close>

fun distinct_ids :: "'a fav_json list \<Rightarrow> bool" where
  "distinct_ids [] = True"
| "distinct_ids (f # fs) =
     (\<not> list_ex (\<lambda>g. strict_eq (id_field f) (id_field g)) fs \<and> distinct_ids fs)"

section \<open>Statements of the specification and sample data\<close>

subsection \<open>Predicates of the specification\<close>

text \<open>The places of a response (none unless the body is a list of places).\<close>

definition returned_places :: "'f response \<Rightarrow> place list" where
  "returned_places r = (case body r of Places ps \<Rightarrow> ps | _ \<Rightarrow> [])"

text \<open>A finite number of magnitude at most \<open>b\<close>.\<close>

definition in_range :: "rat \<Rightarrow> jsnum \<Rightarrow> bool" where
  "in_range b n = (case n of Fin x \<Rightarrow> - b \<le> x \<and> x \<le> b | _ \<Rightarrow> False)"

definition valid_place :: "place \<Rightarrow> bool" where
  "valid_place p = (in_range 90 (lat p) \<and> in_range 180 (lon p))"

text \<open>The requests to the forecast service among the requests a handler sent.\<close>

definition forecast_requests :: "call list \<Rightarrow> forecast_params list" where
  "forecast_requests cs = concat (map (\<lambda>c. case c of OpenMeteo p \<Rightarrow> [p] | _ \<Rightarrow> []) cs)"

text \<open>
  The variable groups the specification lists, under the names the forecast service
  gives them: current temperature, apparent temperature, humidity, wind speed and
  precipitation; daily weather code, maximal and minimal temperature, precipitation sum,
  maximal UV index and maximal wind speed.
\<close>

definition spec_current :: "string set" where
  "spec_current = {''temperature_2m'', ''apparent_temperature'', ''relative_humidity_2m'',
                   ''wind_speed_10m'', ''precipitation''}"

definition spec_daily :: "string set" where
  "spec_daily = {''weathercode'', ''temperature_2m_max'', ''temperature_2m_min'',
                 ''precipitation_sum'', ''uv_index_max'', ''wind_speed_10m_max''}"

text \<open>
  The request of the specification: the two groups, seven days, and no other group.
\<close>

definition spec_forecast_request :: "forecast_params \<Rightarrow> bool" where
  "spec_forecast_request p =
     (variables (current_vars p) = spec_current \<and> variables (daily_vars p) = spec_daily
      \<and> forecast_days p = 7 \<and> hourly_vars p = None)"

text \<open>The request with the hourly group that the forecast handler adds.\<close>

definition hourly_forecast_request :: "forecast_params \<Rightarrow> bool" where
  "hourly_forecast_request p =
     (variables (current_vars p) = spec_current \<and> variables (daily_vars p) = spec_daily
      \<and> forecast_days p = 7
      \<and> map_option variables (hourly_vars p) =
          Some {''temperature_2m'', ''precipitation'', ''relative_humidity_2m'', ''wind_speed_10m''})"

text \<open>The documents of a collection at a pair of coordinates.\<close>

definition same_coords :: "jsnum \<Rightarrow> jsnum \<Rightarrow> favorite \<Rightarrow> bool" where
  "same_coords la lo f = (fav_lat f = la \<and> fav_lon f = lo)"

subsection \<open>Sample requests, replies and environments\<close>

text \<open>A forecast service whose every request fails.\<close>

definition open_meteo_down :: "forecast_params \<Rightarrow> unit reply" where
  "open_meteo_down p = Failed"

definition query_blank :: query where
  "query_blank = \<lparr>query_q = Some ''   '', query_lat = None, query_lon = None, query_tz = None\<rparr>"

definition query_kolhapur :: query where
  "query_kolhapur =
     \<lparr>query_q = Some '' Kolhapur'', query_lat = None, query_lon = None, query_tz = None\<rparr>"

definition query_infinity :: query where
  "query_infinity =
     \<lparr>query_q = None, query_lat = Some ''Infinity'', query_lon = Some ''0'', query_tz = None\<rparr>"

definition query_abc :: query where
  "query_abc = \<lparr>query_q = None, query_lat = Some ''abc'', query_lon = None, query_tz = None\<rparr>"

definition query_origin :: query where
  "query_origin = \<lparr>query_q = None, query_lat = Some ''0'', query_lon = Some ''0'', query_tz = None\<rparr>"

text \<open>A place-search reply of one record, one of six records too far north, and none.\<close>

definition row_kolhapur :: nominatim_row where
  "row_kolhapur =
     \<lparr>display_name = JStr ''Kolhapur'', row_lat = JStr ''16.7'', row_lon = JStr ''74.24''\<rparr>"

definition row_north :: nominatim_row where
  "row_north = \<lparr>display_name = JStr ''North'', row_lat = JStr ''95'', row_lon = JStr ''0''\<rparr>"

definition nominatim_one :: "nominatim_params \<Rightarrow> nominatim_row list reply" where
  "nominatim_one p = Replied [row_kolhapur]"

definition nominatim_six :: "nominatim_params \<Rightarrow> nominatim_row list reply" where
  "nominatim_six p = Replied (replicate 6 row_north)"

definition nominatim_none :: "nominatim_params \<Rightarrow> nominatim_row list reply" where
  "nominatim_none p = Replied []"

text \<open>Two save requests for the same coordinates under different names.\<close>

definition body_kolhapur :: fav_body where
  "body_kolhapur =
     \<lparr>body_name = JStr ''Kolhapur'', body_lat = JNum (Fin (167 / 10)), body_lon = JNum (Fin (1856 / 25))\<rparr>"

definition body_renamed :: fav_body where
  "body_renamed =
     \<lparr>body_name = JStr ''Home'', body_lat = JNum (Fin (167 / 10)), body_lon = JNum (Fin (1856 / 25))\<rparr>"

definition body_strings :: fav_body where
  "body_strings =
     \<lparr>body_name = JStr ''Kolhapur'', body_lat = JStr ''16.7'', body_lon = JStr ''74.24''\<rparr>"

definition env_first :: mongo_env where
  "env_first =
     \<lparr>find_fails = False, create_fails = False, delete_fails = False,
      new_id = ''65f000000000000000000001'', now = 1000\<rparr>"

definition env_second :: mongo_env where
  "env_second =
     \<lparr>find_fails = False, create_fails = False, delete_fails = False,
      new_id = ''65f000000000000000000002'', now = 2000\<rparr>"

definition fav_kolhapur :: favorite where
  "fav_kolhapur =
     \<lparr>fav_id = ''65f000000000000000000001'', fav_name = Some (Text ''Kolhapur''),
      fav_lat = Fin (167 / 10), fav_lon = Fin (1856 / 25), createdAt = 1000, updatedAt = 1000\<rparr>"

text \<open>A forecast of two days, 12 mm and 2.5 mm of precipitation.\<close>

definition sample_daily :: daily_json where
  "sample_daily =
     \<lparr>time = [JStr ''2025-06-01'', JStr ''2025-06-02''],
      temperature_2m_max = [JNum (Fin 31), JNum (Fin 29)],
      temperature_2m_min = [JNum (Fin 22), JNum (Fin 21)],
      precipitation_sum = [JNum (Fin 12), JNum (Fin (5 / 2))],
      uv_index_max = Some [JNum (Fin 7), JNum (Fin 6)],
      wind_speed_10m_max = None\<rparr>"

definition sample_forecast :: forecast_json where
  "sample_forecast = \<lparr>daily_part = Some sample_daily\<rparr>"

text \<open>
  A list of two saved favorites, a reply repeating the first identifier and a reply with
  a new one.
\<close>

definition sample_favs :: "unit fav_json list" where
  "sample_favs =
     [\<lparr>id_field = JStr ''65f000000000000000000001'', rest = ()\<rparr>,
      \<lparr>id_field = JStr ''65f000000000000000000002'', rest = ()\<rparr>]"

definition sample_reply :: "unit fav_json" where
  "sample_reply = \<lparr>id_field = JStr ''65f000000000000000000001'', rest = ()\<rparr>"

definition sample_new :: "unit fav_json" where
  "sample_new = \<lparr>id_field = JStr ''65f000000000000000000003'', rest = ()\<rparr>"

section \<open>Properties of the numbers\<close>

lemma bitlen_lower: "0 < n \<Longrightarrow> (2::rat) powi (bitlen n - 1) \<le> of_int n"
proof -
  assume n: "0 < n"
  then have b: "2 ^ nat (bitlen n - 1) \<le> n" using bitlen_bounds by blast
  have "bitlen n \<noteq> 0" using n by (simp add: bitlen_eq_zero_iff)
  then have "0 < bitlen n" using bitlen_nonneg [of n] by linarith
  then have "(2::rat) powi (bitlen n - 1) = 2 ^ nat (bitlen n - 1)"
    by (simp add: power_int_def)
  also have "\<dots> = of_int (2 ^ nat (bitlen n - 1))" by simp
  also have "\<dots> \<le> of_int n" using b by (simp only: of_int_le_iff)
  finally show ?thesis .
qed

lemma bitlen_upper: "0 < n \<Longrightarrow> of_int n < (2::rat) powi (bitlen n)"
proof -
  assume n: "0 < n"
  then have b: "n < 2 ^ nat (bitlen n)" using bitlen_bounds by blast
  have "0 \<le> bitlen n" by (rule bitlen_nonneg)
  then have "(2::rat) powi (bitlen n) = 2 ^ nat (bitlen n)"
    by (simp add: power_int_def)
  also have "\<dots> = of_int (2 ^ nat (bitlen n))" by simp
  finally have e: "(2::rat) powi (bitlen n) = of_int (2 ^ nat (bitlen n))" .
  show ?thesis unfolding e using b by (simp only: of_int_less_iff)
qed

lemma powi_less_exp: "(2::rat) powi e < 2 powi f \<Longrightarrow> e < f"
proof (rule ccontr)
  assume l: "(2::rat) powi e < 2 powi f" and "\<not> e < f"
  then have "f \<le> e" by simp
  then have "(2::rat) powi f \<le> 2 powi e" by (rule power_int_increasing) simp
  with l show False by simp
qed

lemma powi_exp_unique:
  assumes "(2::rat) powi e \<le> a" and "a < 2 powi (e + 1)"
    and "(2::rat) powi e' \<le> a" and "a < 2 powi (e' + 1)"
  shows "e = e'"
proof -
  have "(2::rat) powi e < 2 powi (e' + 1)" using assms by simp
  then have 1: "e < e' + 1" by (rule powi_less_exp)
  have "(2::rat) powi e' < 2 powi (e + 1)" using assms by simp
  then have 2: "e' < e + 1" by (rule powi_less_exp)
  from 1 2 show ?thesis by simp
qed

lemma ilog2_bounds:
  assumes "0 < a"
  shows "2 powi (ilog2 a) \<le> a \<and> a < 2 powi (ilog2 a + 1)"
proof -
  obtain n d where q: "quotient_of a = (n, d)" by (cases "quotient_of a")
  have d: "0 < d" using q by (rule quotient_of_denom_pos)
  have a: "a = of_int n / of_int d" using q by (rule quotient_of_div)
  have n: "0 < n" using assms a d by (simp add: zero_less_divide_iff)
  define e0 where "e0 = bitlen n - bitlen d"
  have dpos: "(0::rat) < of_int d" using d by simp
  have "a * of_int d = of_int n" using a d by simp
  have up: "a < 2 powi (e0 + 1)"
  proof -
    have "of_int n < (2::rat) powi (bitlen n)" using n by (rule bitlen_upper)
    moreover have "(2::rat) powi (bitlen d - 1) \<le> of_int d" using d by (rule bitlen_lower)
    ultimately have "of_int n * (2::rat) powi (bitlen d - 1) < 2 powi (bitlen n) * of_int d"
      using dpos n by (intro mult_less_le_imp_less) simp_all
    then have "a * (2::rat) powi (bitlen d - 1) < 2 powi (bitlen n)"
      using dpos by (simp add: a field_simps)
    then have "a < 2 powi (bitlen n) / 2 powi (bitlen d - 1)"
      by (simp add: pos_less_divide_eq)
    also have "\<dots> = 2 powi (e0 + 1)"
      by (simp add: e0_def power_int_diff [symmetric] algebra_simps)
    finally show ?thesis .
  qed
  have low: "2 powi (e0 - 1) \<le> a"
  proof -
    have "(2::rat) powi (bitlen n - 1) \<le> of_int n" using n by (rule bitlen_lower)
    moreover have "of_int d < (2::rat) powi (bitlen d)" using d by (rule bitlen_upper)
    ultimately have "(2::rat) powi (bitlen n - 1) * of_int d \<le> of_int n * 2 powi (bitlen d)"
      using dpos n by (intro mult_mono) simp_all
    then have "(2::rat) powi (bitlen n - 1) \<le> a * 2 powi (bitlen d)"
      using dpos by (simp add: a field_simps)
    then have "(2::rat) powi (bitlen n - 1) / 2 powi (bitlen d) \<le> a"
      by (simp add: pos_divide_le_eq)
    moreover have "(2::rat) powi (bitlen n - 1) / 2 powi (bitlen d) = 2 powi (e0 - 1)"
      by (simp add: e0_def power_int_diff [symmetric] algebra_simps)
    ultimately show ?thesis by simp
  qed
  have i: "ilog2 a = (if 2 powi e0 \<le> a then e0 else e0 - 1)"
    by (simp add: ilog2_def q e0_def)
  show ?thesis
  proof (cases "2 powi e0 \<le> a")
    case True
    then show ?thesis using up by (simp add: i)
  next
    case False
    then show ?thesis using low by (simp add: i)
  qed
qed

lemma ilog2_unique:
  assumes "0 < a" and "2 powi e \<le> a" and "a < 2 powi (e + 1)"
  shows "ilog2 a = e"
  using ilog2_bounds [OF assms(1)] assms(2,3) by (auto intro: powi_exp_unique)

lemma floor_rat_numeral:
  "\<lfloor>(numeral a / numeral b :: rat)\<rfloor> = numeral a div numeral b"
  using floor_divide_of_int_eq [of "numeral a" "numeral b", where ?'a = rat] by simp

lemma to_double_not_NaN: "to_double q \<noteq> NaN"
  by (simp add: to_double_def Let_def)

text \<open>An integer of magnitude below \<open>2 ^ 53\<close> is a binary64 value: rounding leaves it.\<close>

lemma round_half_even_of_int: "round_half_even (of_int k) = k"
  by (simp add: round_half_even_def)

lemma to_double_of_int:
  assumes "\<bar>m\<bar> < 2 ^ 53"
  shows "to_double (of_int m) = Fin (of_int m)"
proof (cases "m = 0")
  case True
  then show ?thesis by (simp add: to_double_def)
next
  case False
  define a :: rat where "a = of_int \<bar>m\<bar>"
  define e where "e = ilog2 a"
  have a1: "1 \<le> a" using False by (simp add: a_def)
  then have apos: "0 < a" by simp
  have a53: "a < 2 powi 53"
  proof -
    have "a < of_int (2 ^ 53)" unfolding a_def using assms by (simp only: of_int_less_iff)
    then show ?thesis by simp
  qed
  from ilog2_bounds [OF apos] have lo: "2 powi e \<le> a" and hi: "a < 2 powi (e + 1)"
    by (simp_all add: e_def)
  have "(2::rat) powi 0 < 2 powi (e + 1)" using a1 hi by simp
  then have e0: "0 \<le> e" using powi_less_exp [of 0 "e + 1"] by simp
  have "(2::rat) powi e < 2 powi 53" using lo a53 by simp
  then have e52: "e \<le> 52" using powi_less_exp [of e 53] by simp
  define k where "k = nat (52 - e)"
  have u: "(2::rat) powi (e - 52) = 1 / 2 ^ k"
    using e52 by (simp add: power_int_def k_def field_simps)
  have q: "a / (2 powi (e - 52)) = of_int (\<bar>m\<bar> * 2 ^ k)"
    by (simp add: u a_def)
  have r: "of_int (round_half_even (a / (2 powi (e - 52)))) * (2::rat) powi (e - 52) = a"
    unfolding q round_half_even_of_int by (simp add: u a_def)
  have big: "\<not> (2::rat) powi 1024 \<le> a"
  proof -
    have "(2::rat) powi 53 \<le> 2 powi 1024" by (rule power_int_increasing) simp_all
    with a53 show ?thesis by simp
  qed
  have m: "max e (- 1022) = e" using e0 by simp
  have abs: "\<bar>of_int m :: rat\<bar> = a" by (simp add: a_def)
  have sgn: "(if (of_int m :: rat) < 0 then - a else a) = of_int m"
    by (simp add: a_def)
  have n0: "(of_int m :: rat) \<noteq> 0" using False by simp
  show ?thesis
    unfolding to_double_def abs Let_def e_def [symmetric] m r
    using n0 big sgn by simp
qed

text \<open>Conversions of the sample strings.\<close>

lemma Number_empty: "StringToNumber [] = Fin 0"
  by (simp add: StringToNumber_def trim_def)

lemma Number_zero: "StringToNumber ''0'' = Fin 0"
  by (simp add: StringToNumber_def trim_def is_ws_def non_decimal_def unsigned_decimal_def
      is_digit_def exponent_part_def digits_val_def digit_val_def to_double_def)

lemma Number_Infinity: "StringToNumber ''Infinity'' = PosInf"
  by (simp add: StringToNumber_def trim_def is_ws_def non_decimal_def unsigned_decimal_def)

lemma Number_abc: "StringToNumber ''abc'' = NaN"
  by (simp add: StringToNumber_def trim_def is_ws_def non_decimal_def unsigned_decimal_def
      is_digit_def)

lemma Number_95: "StringToNumber ''95'' = Fin 95"
  by (simp add: StringToNumber_def trim_def is_ws_def non_decimal_def unsigned_decimal_def
      is_digit_def exponent_part_def digits_val_def digit_val_def to_double_def
      ilog2_unique [of _ 6] round_half_even_def Let_def)

lemma Number_16_7: "StringToNumber ''16.7'' = to_double (167 / 10)"
  by (simp add: StringToNumber_def trim_def is_ws_def non_decimal_def unsigned_decimal_def
      is_digit_def exponent_part_def digits_val_def digit_val_def)

lemma Number_74_24: "StringToNumber ''74.24'' = to_double (1856 / 25)"
  by (simp add: StringToNumber_def trim_def is_ws_def non_decimal_def unsigned_decimal_def
      is_digit_def exponent_part_def digits_val_def digit_val_def)

lemma to_double_16_7: "to_double (167 / 10) = Fin (4700632111067955 / 281474976710656)"
  by (simp add: to_double_def ilog2_unique [of _ 4] round_half_even_def Let_def
      floor_rat_numeral)

lemma to_double_74_24: "to_double (1856 / 25) = Fin (5224175567749775 / 70368744177664)"
  by (simp add: to_double_def ilog2_unique [of _ 6] round_half_even_def Let_def
      floor_rat_numeral)

lemma to_double_120: "to_double 120 = Fin 120"
  by (simp add: to_double_def ilog2_unique [of _ 6] round_half_even_def Let_def)

lemma to_double_25: "to_double 25 = Fin 25"
  by (simp add: to_double_def ilog2_unique [of _ 4] round_half_even_def Let_def)

section \<open>Properties of the server\<close>

subsection \<open>Blank queries\<close>

lemma trim_blank: "\<forall>c\<in>set s. is_ws c \<Longrightarrow> trim s = []"
proof -
  assume "\<forall>c\<in>set s. is_ws c"
  then have d: "dropWhile is_ws s = []" by simp
  show ?thesis unfolding trim_def d by simp
qed

lemma or_default_Some: "or_default (Some s) [] = s"
  by (simp add: or_default_def)

lemma trim_Kolhapur: "trim '' Kolhapur'' = ''Kolhapur''"
  by (simp add: trim_def is_ws_def)

text \<open>
  Claim C6. A query made of white space only, the empty string included, gets the empty
  list of places with status 200, and the handler sends no request to the place-search
  service.
\<close>

theorem geocode_blank_query:
  assumes "query_q req = Some s" and "\<forall>c\<in>set s. is_ws c"
  shows "geocode nominatim req = (\<lparr>status = 200, body = Places []\<rparr>, [])"
  using assms by (simp add: geocode_def or_default_Some trim_blank res_json_def)

theorem geocode_blank_query_witness:
  "geocode nominatim_one query_blank = (\<lparr>status = 200, body = Places []\<rparr>, ([] :: call list))"
proof -
  have q: "query_q query_blank = Some ''   ''" by (simp add: query_blank_def)
  have w: "\<forall>c\<in>set ''   ''. is_ws c" by (simp add: is_ws_def)
  from geocode_blank_query [OF q w] show ?thesis .
qed

text \<open>An absent \<open>q\<close> is answered the same way.\<close>

lemma geocode_absent_query:
  "query_q req = None \<Longrightarrow> geocode nominatim req = (\<lparr>status = 200, body = Places []\<rparr>, [])"
  by (simp add: geocode_def or_default_def trim_def res_json_def)

subsection \<open>A search that finds no place\<close>

text \<open>
  Claim C3. When the query is not blank and the place search replies with no record,
  \<open>searchWeather\<close> answers 404 with the error \<open>Place not found\<close> (neither the 400 of a
  missing query nor the 500 of a failed service), and the only request it has sent is
  the place search: no forecast is asked for.
\<close>

theorem searchWeather_not_found:
  assumes "query_q req = Some s" and "trim s \<noteq> []"
    and "nominatim \<lparr>search_q = trim s, format = ''json'', addressdetails = None, limit = 1\<rparr>
           = Replied []"
  shows "searchWeather nominatim open_meteo req =
           (\<lparr>status = 404, body = Error ''Place not found''\<rparr>,
            [Nominatim \<lparr>search_q = trim s, format = ''json'', addressdetails = None, limit = 1\<rparr>])"
  using assms by (simp add: searchWeather_def or_default_Some res_status_json_def Let_def)

theorem searchWeather_not_found_witness:
  "searchWeather nominatim_none open_meteo_down query_kolhapur =
     (\<lparr>status = 404, body = Error ''Place not found''\<rparr>,
      [Nominatim \<lparr>search_q = ''Kolhapur'', format = ''json'', addressdetails = None, limit = 1\<rparr>])"
proof -
  have q: "query_q query_kolhapur = Some '' Kolhapur''" by (simp add: query_kolhapur_def)
  have t: "trim '' Kolhapur'' \<noteq> []" by (simp add: trim_Kolhapur)
  have n: "nominatim_none
             \<lparr>search_q = trim '' Kolhapur'', format = ''json'', addressdetails = None, limit = 1\<rparr>
             = Replied []"
    by (simp add: nominatim_none_def)
  from searchWeather_not_found [where nominatim = nominatim_none and open_meteo = open_meteo_down, OF q t n]
  show ?thesis
    by (simp add: trim_Kolhapur)
qed

text \<open>The other answers of \<open>searchWeather\<close> are not 404.\<close>

lemma searchWeather_404_only_when_not_found:
  assumes "status (fst (searchWeather nominatim open_meteo req)) = 404"
  shows "trim (or_default (query_q req) []) \<noteq> []
         \<and> nominatim \<lparr>search_q = trim (or_default (query_q req) []), format = ''json'',
                        addressdetails = None, limit = 1\<rparr> = Replied []"
  using assms
  by (auto simp add: searchWeather_def res_status_json_def res_json_def Let_def
      split: if_splits reply.splits list.splits)

subsection \<open>Validation of the forecast coordinates\<close>

text \<open>
  The check of the handler is \<open>Number.isNaN\<close>: a coordinate that converts to an infinity
  passes it. With \<open>lat=Infinity\<close> the value is not a finite number, and yet the handler
  sends the request to the forecast service; the answer is the 500 of a failed service,
  not the 400 of the validation.
\<close>

theorem forecast_infinity_counterexample:
  "\<not> isFinite (ToNumber (param (query_lat query_infinity)))
   \<and> status (fst (forecast open_meteo_down query_infinity)) = 500
   \<and> snd (forecast open_meteo_down query_infinity) =
       [OpenMeteo \<lparr>latitude = PosInf, longitude = Fin 0,
          current_vars =
            ''temperature_2m,relative_humidity_2m,apparent_temperature,wind_speed_10m,precipitation'',
          hourly_vars = Some ''temperature_2m,precipitation,relative_humidity_2m,wind_speed_10m'',
          daily_vars =
            ''weathercode,temperature_2m_max,temperature_2m_min,precipitation_sum,uv_index_max,wind_speed_10m_max'',
          timezone = ''auto'', forecast_days = 7\<rparr>]"
  by (simp add: forecast_def query_infinity_def param_def Number_Infinity Number_zero isNaN_def
      isFinite_def or_default_def open_meteo_down_def res_status_json_def)

text \<open>
  Claim C2, amended. When \<open>lat\<close> or \<open>lon\<close> converts to \<open>NaN\<close> (the parameter is absent, or
  is a string that is no numeric literal), the handler answers 400 with the error
  \<open>lat/lon required\<close> and sends no request to the forecast service.
\<close>

theorem forecast_rejects_NaN:
  assumes "isNaN (ToNumber (param (query_lat req))) \<or> isNaN (ToNumber (param (query_lon req)))"
  shows "forecast open_meteo req = (\<lparr>status = 400, body = Error ''lat/lon required''\<rparr>, [])"
  using assms by (auto simp add: forecast_def res_status_json_def Let_def)

theorem forecast_rejects_NaN_witness:
  "isNaN (ToNumber (param (query_lat query_abc)))
   \<and> forecast open_meteo_down query_abc
       = (\<lparr>status = 400, body = Error ''lat/lon required''\<rparr>, ([] :: call list))"
proof -
  have h: "isNaN (ToNumber (param (query_lat query_abc)))"
    by (simp add: query_abc_def param_def Number_abc isNaN_def)
  then have "isNaN (ToNumber (param (query_lat query_abc)))
             \<or> isNaN (ToNumber (param (query_lon query_abc)))"
    by simp
  from forecast_rejects_NaN [OF this, of open_meteo_down] h show ?thesis by simp
qed

text \<open>
  Every other request is forwarded: an absent parameter is the only one that converts to
  \<open>NaN\<close> without being a malformed string, and coordinates that are not \<open>NaN\<close>, finite or
  not, reach the forecast service.
\<close>

lemma absent_param_is_NaN: "isNaN (ToNumber (param None))"
  by (simp add: param_def isNaN_def)

lemma forecast_forwards:
  assumes "\<not> isNaN (ToNumber (param (query_lat req)))"
    and "\<not> isNaN (ToNumber (param (query_lon req)))"
  shows "\<exists>p. snd (forecast open_meteo req) = [OpenMeteo p]
           \<and> latitude p = ToNumber (param (query_lat req))
           \<and> longitude p = ToNumber (param (query_lon req))"
  using assms by (simp add: forecast_def Let_def split: reply.split)

subsection \<open>The places of a geocoding reply\<close>

lemma geocode_six:
  "geocode nominatim_six query_kolhapur =
     (\<lparr>status = 200,
        body = Places (replicate 6 \<lparr>name = JStr ''North'', lat = Fin 95, lon = Fin 0\<rparr>)\<rparr>,
      [Nominatim \<lparr>search_q = ''Kolhapur'', format = ''json'', addressdetails = Some 1, limit = 5\<rparr>])"
  by (simp add: geocode_def query_kolhapur_def or_default_Some trim_Kolhapur nominatim_six_def
      res_json_def place_of_def row_north_def Number_95 Number_zero Let_def)

text \<open>
  The handler returns what the place search replied, record by record: it neither cuts
  the list at five nor checks a coordinate. With a reply of six records at latitude 95 it
  returns six places, none of them in range.
\<close>

theorem geocode_six_counterexample:
  "\<not> length (returned_places
               (fst (geocode nominatim_six query_kolhapur :: unit response \<times> call list))) \<le> 5
   \<and> \<not> valid_place
         (hd (returned_places
                (fst (geocode nominatim_six query_kolhapur :: unit response \<times> call list))))"
  by (simp add: geocode_six returned_places_def valid_place_def in_range_def)

text \<open>
  Claim C4, amended. For a query that is not blank the handler asks the place search for
  at most five records (\<open>limit = 5\<close>) and, when the search replies, returns one place per
  record of the reply, in the order of the reply, the coordinates being the numbers the
  record's \<open>lat\<close> and \<open>lon\<close> convert to. So it returns at most five places when the reply
  has at most five records, and places with a finite latitude in \<open>[-90, 90]\<close> and a finite
  longitude in \<open>[-180, 180]\<close> when the records of the reply convert to such coordinates.
\<close>

theorem geocode_maps_upstream_rows:
  assumes "query_q req = Some s" and "trim s \<noteq> []"
    and "nominatim \<lparr>search_q = trim s, format = ''json'', addressdetails = Some 1, limit = 5\<rparr>
           = Replied rows"
  shows "geocode nominatim req =
           (\<lparr>status = 200, body = Places (map place_of rows)\<rparr>,
            [Nominatim \<lparr>search_q = trim s, format = ''json'', addressdetails = Some 1, limit = 5\<rparr>])
         \<and> (length rows \<le> 5 \<longrightarrow> length (returned_places (fst (geocode nominatim req))) \<le> 5)
         \<and> ((\<forall>r\<in>set rows. valid_place (place_of r))
               \<longrightarrow> (\<forall>p\<in>set (returned_places (fst (geocode nominatim req))). valid_place p))"
proof -
  have g: "geocode nominatim req =
           (\<lparr>status = 200, body = Places (map place_of rows)\<rparr>,
            [Nominatim \<lparr>search_q = trim s, format = ''json'', addressdetails = Some 1, limit = 5\<rparr>])"
    using assms by (simp add: geocode_def or_default_Some res_json_def Let_def)
  show ?thesis
    by (simp add: g returned_places_def)
qed

lemma place_of_kolhapur:
  "place_of row_kolhapur =
     \<lparr>name = JStr ''Kolhapur'', lat = Fin (4700632111067955 / 281474976710656),
      lon = Fin (5224175567749775 / 70368744177664)\<rparr>"
  by (simp add: place_of_def row_kolhapur_def Number_16_7 Number_74_24 to_double_16_7
      to_double_74_24)

theorem geocode_maps_upstream_rows_witness:
  "geocode nominatim_one query_kolhapur =
     (\<lparr>status = 200,
        body = Places [\<lparr>name = JStr ''Kolhapur'', lat = Fin (4700632111067955 / 281474976710656),
                        lon = Fin (5224175567749775 / 70368744177664)\<rparr>]\<rparr>,
      [Nominatim \<lparr>search_q = ''Kolhapur'', format = ''json'', addressdetails = Some 1, limit = 5\<rparr>])
   \<and> length (returned_places (fst (geocode nominatim_one query_kolhapur))) \<le> 5
   \<and> list_all valid_place (returned_places (fst (geocode nominatim_one query_kolhapur)))"
proof -
  have q: "query_q query_kolhapur = Some '' Kolhapur''" by (simp add: query_kolhapur_def)
  have t: "trim '' Kolhapur'' \<noteq> []" by (simp add: trim_Kolhapur)
  have n: "nominatim_one
             \<lparr>search_q = trim '' Kolhapur'', format = ''json'', addressdetails = Some 1, limit = 5\<rparr>
             = Replied [row_kolhapur]"
    by (simp add: nominatim_one_def)
  have v: "\<forall>r\<in>set [row_kolhapur]. valid_place (place_of r)"
    by (simp add: place_of_kolhapur valid_place_def in_range_def)
  from geocode_maps_upstream_rows [where nominatim = nominatim_one, OF q t n] v show ?thesis
    by (simp add: place_of_kolhapur trim_Kolhapur list_all_iff)
qed

subsection \<open>The variables asked of the forecast service\<close>

lemma current_variables:
  "variables ''temperature_2m,relative_humidity_2m,apparent_temperature,wind_speed_10m,precipitation''
     = spec_current"
  by (simp add: variables_def spec_current_def insert_commute)

lemma daily_variables:
  "variables ''weathercode,temperature_2m_max,temperature_2m_min,precipitation_sum,uv_index_max,wind_speed_10m_max''
     = spec_daily"
  by (simp add: variables_def spec_daily_def insert_commute)

lemma hourly_variables:
  "variables ''temperature_2m,precipitation,relative_humidity_2m,wind_speed_10m''
     = {''temperature_2m'', ''precipitation'', ''relative_humidity_2m'', ''wind_speed_10m''}"
  by (simp add: variables_def insert_commute)

lemma forecast_calls:
  "forecast_requests (snd (forecast open_meteo req)) = [] \<or>
   (\<exists>la lo tz. forecast_requests (snd (forecast open_meteo req)) =
      [\<lparr>latitude = la, longitude = lo,
        current_vars =
          ''temperature_2m,relative_humidity_2m,apparent_temperature,wind_speed_10m,precipitation'',
        hourly_vars = Some ''temperature_2m,precipitation,relative_humidity_2m,wind_speed_10m'',
        daily_vars =
          ''weathercode,temperature_2m_max,temperature_2m_min,precipitation_sum,uv_index_max,wind_speed_10m_max'',
        timezone = tz, forecast_days = 7\<rparr>])"
  by (simp add: forecast_def forecast_requests_def Let_def split: reply.split)

text \<open>
  The request of the forecast handler names a third group, the hourly variables: at
  \<open>lat=0&lon=0\<close> the handler sends a request, and it is not the request of the
  specification.
\<close>

theorem forecast_hourly_counterexample:
  "forecast_requests (snd (forecast open_meteo_down query_origin)) \<noteq> []
   \<and> \<not> list_all spec_forecast_request
         (forecast_requests (snd (forecast open_meteo_down query_origin)))"
  by (simp add: forecast_def query_origin_def param_def Number_zero isNaN_def or_default_def
      open_meteo_down_def forecast_requests_def spec_forecast_request_def Let_def)

text \<open>
  Claim C5, amended. Every request the forecast handler sends to the forecast service
  asks for exactly the current variables and exactly the daily variables of the
  specification, over seven days, and also for the hourly variables temperature,
  precipitation, humidity and wind speed; and the handler sends one such request
  whenever it does not answer 400.
\<close>

theorem forecast_requests_with_hourly:
  "list_all hourly_forecast_request (forecast_requests (snd (forecast open_meteo req)))
   \<and> (status (fst (forecast open_meteo req)) \<noteq> 400
        \<longrightarrow> length (forecast_requests (snd (forecast open_meteo req))) = 1)"
proof -
  have "list_all hourly_forecast_request (forecast_requests (snd (forecast open_meteo req)))"
    using forecast_calls [of open_meteo req]
    by (auto simp add: hourly_forecast_request_def current_variables daily_variables
        hourly_variables)
  moreover have "status (fst (forecast open_meteo req)) \<noteq> 400
        \<longrightarrow> length (forecast_requests (snd (forecast open_meteo req))) = 1"
    by (simp add: forecast_def forecast_requests_def res_status_json_def Let_def
        split: reply.split)
  ultimately show ?thesis by simp
qed

theorem forecast_requests_with_hourly_witness:
  "list_all hourly_forecast_request
     (forecast_requests (snd (forecast open_meteo_down query_origin)))
   \<and> status (fst (forecast open_meteo_down query_origin)) = 500
   \<and> length (forecast_requests (snd (forecast open_meteo_down query_origin))) = 1"
proof -
  have "status (fst (forecast open_meteo_down query_origin)) = 500"
    by (simp add: forecast_def query_origin_def param_def Number_zero isNaN_def
        or_default_def open_meteo_down_def res_status_json_def Let_def)
  with forecast_requests_with_hourly [of open_meteo_down query_origin] show ?thesis
    by simp
qed

text \<open>
  The forecast request of \<open>searchWeather\<close> is the request of the specification, without the
  hourly group.
\<close>

lemma searchWeather_requests_spec:
  "list_all spec_forecast_request
     (forecast_requests (snd (searchWeather nominatim open_meteo req)))"
  by (simp add: searchWeather_def forecast_requests_def spec_forecast_request_def
      current_variables daily_variables Let_def split: reply.split list.split)

subsection \<open>Saving a favorite twice\<close>

lemma find_snoc:
  "find P (xs @ [x]) =
     (case find P xs of Some y \<Rightarrow> Some y | None \<Rightarrow> if P x then Some x else None)"
  by (induction xs) auto

lemma find_Some_holds: "find P xs = Some y \<Longrightarrow> P y"
  by (induction xs) (auto split: if_splits)

lemma findOne_same_coords:
  "findOne env db (JNum la) (JNum lo) =
     (if find_fails env then Failed else Replied (find (same_coords la lo) db))"
proof -
  have "(\<lambda>f. fav_lat f = la \<and> fav_lon f = lo) = same_coords la lo"
    by (rule ext) (simp add: same_coords_def)
  then show ?thesis by (simp add: findOne_def)
qed

lemma post_favorites_existing:
  assumes "truthy n" and "\<not> find_fails env" and "find (same_coords la lo) db = Some g"
  shows "post_favorites env \<lparr>body_name = n, body_lat = JNum la, body_lon = JNum lo\<rparr> db
           = (\<lparr>status = 200, body = Fav g\<rparr>, db)"
  using assms by (simp add: post_favorites_def findOne_same_coords res_json_def)

lemma post_favorites_new:
  assumes "truthy n" and "\<not> find_fails env" and "\<not> create_fails env"
    and "find (same_coords la lo) db = None"
  shows "post_favorites env \<lparr>body_name = n, body_lat = JNum la, body_lon = JNum lo\<rparr> db
           = (\<lparr>status = 200,
                body = Fav \<lparr>fav_id = new_id env, fav_name = castString n, fav_lat = la,
                             fav_lon = lo, createdAt = now env, updatedAt = now env\<rparr>\<rparr>,
              db @ [\<lparr>fav_id = new_id env, fav_name = castString n, fav_lat = la,
                      fav_lon = lo, createdAt = now env, updatedAt = now env\<rparr>])"
  using assms by (simp add: post_favorites_def findOne_same_coords create_def res_json_def Let_def)

text \<open>
  Claim C1. Two save requests with the same coordinates and any two names (each a name
  the validation accepts), the database answering, return the same document with status
  200: the second request returns the document of the first and leaves the collection as
  the first left it. When no document had the coordinates before, that document carries
  the first name and is the only one at the coordinates; otherwise nothing is inserted.
\<close>

theorem create_twice_same_record:
  assumes "truthy n1" and "truthy n2"
    and "\<not> find_fails e1" and "\<not> create_fails e1" and "\<not> find_fails e2"
  shows "\<exists>f db1.
           post_favorites e1 \<lparr>body_name = n1, body_lat = JNum la, body_lon = JNum lo\<rparr> db
             = (\<lparr>status = 200, body = Fav f\<rparr>, db1)
         \<and> post_favorites e2 \<lparr>body_name = n2, body_lat = JNum la, body_lon = JNum lo\<rparr> db1
             = (\<lparr>status = 200, body = Fav f\<rparr>, db1)
         \<and> fav_lat f = la \<and> fav_lon f = lo
         \<and> length (filter (same_coords la lo) db1)
             = max 1 (length (filter (same_coords la lo) db))
         \<and> (find (same_coords la lo) db = None \<longrightarrow> fav_name f = castString n1)"
proof (cases "find (same_coords la lo) db")
  case None
  let ?f = "\<lparr>fav_id = new_id e1, fav_name = castString n1, fav_lat = la,
              fav_lon = lo, createdAt = now e1, updatedAt = now e1\<rparr>"
  have first: "post_favorites e1 \<lparr>body_name = n1, body_lat = JNum la, body_lon = JNum lo\<rparr> db
                 = (\<lparr>status = 200, body = Fav ?f\<rparr>, db @ [?f])"
    using assms None by (rule_tac post_favorites_new) auto
  have "find (same_coords la lo) (db @ [?f]) = Some ?f"
    by (simp add: find_snoc None same_coords_def)
  then have second:
    "post_favorites e2 \<lparr>body_name = n2, body_lat = JNum la, body_lon = JNum lo\<rparr> (db @ [?f])
       = (\<lparr>status = 200, body = Fav ?f\<rparr>, db @ [?f])"
    using assms by (rule_tac post_favorites_existing) auto
  have empty: "filter (same_coords la lo) db = []"
    using None by (simp add: find_None_iff filter_empty_conv)
  show ?thesis
    by (rule exI [of _ ?f], rule exI [of _ "db @ [?f]"])
       (simp add: first second empty same_coords_def)
next
  case (Some g)
  have first: "post_favorites e1 \<lparr>body_name = n1, body_lat = JNum la, body_lon = JNum lo\<rparr> db
                 = (\<lparr>status = 200, body = Fav g\<rparr>, db)"
    using assms Some by (rule_tac post_favorites_existing) auto
  have second: "post_favorites e2 \<lparr>body_name = n2, body_lat = JNum la, body_lon = JNum lo\<rparr> db
                 = (\<lparr>status = 200, body = Fav g\<rparr>, db)"
    using assms Some by (rule_tac post_favorites_existing) auto
  have g: "same_coords la lo g" using Some by (rule find_Some_holds)
  have "g \<in> set db" using Some by (auto simp: find_Some_iff)
  with g have "filter (same_coords la lo) db \<noteq> []"
    by (auto simp: filter_empty_conv)
  then have pos: "1 \<le> length (filter (same_coords la lo) db)"
    by (cases "filter (same_coords la lo) db") auto
  have coords: "fav_lat g = la \<and> fav_lon g = lo"
    using g by (simp add: same_coords_def)
  show ?thesis
    by (rule exI [of _ g], rule exI [of _ db])
       (use pos in \<open>simp add: first second coords Some max_def\<close>)
qed

theorem create_twice_same_record_witness:
  "post_favorites env_first body_kolhapur []
     = (\<lparr>status = 200, body = Fav fav_kolhapur\<rparr> :: unit response, [fav_kolhapur])
   \<and> post_favorites env_second body_renamed [fav_kolhapur]
       = (\<lparr>status = 200, body = Fav fav_kolhapur\<rparr> :: unit response, [fav_kolhapur])"
proof -
  have t: "truthy (JStr ''Kolhapur'')" "truthy (JStr ''Home'')" by simp_all
  have e: "\<not> find_fails env_first" "\<not> create_fails env_first" "\<not> find_fails env_second"
    by (simp_all add: env_first_def env_second_def)
  from create_twice_same_record [OF t e, of "Fin (167 / 10)" "Fin (1856 / 25)" "[]"]
  obtain f db1 where
    first: "post_favorites env_first body_kolhapur []
              = (\<lparr>status = 200, body = Fav f\<rparr> :: unit response, db1)"
    and second: "post_favorites env_second body_renamed db1
              = (\<lparr>status = 200, body = Fav f\<rparr> :: unit response, db1)"
    unfolding body_kolhapur_def body_renamed_def by blast
  have "post_favorites env_first body_kolhapur []
              = (\<lparr>status = 200, body = Fav fav_kolhapur\<rparr> :: unit response, [fav_kolhapur])"
    unfolding body_kolhapur_def using t(1) e(1,2)
    by (simp add: post_favorites_new [where db = "[]"] env_first_def fav_kolhapur_def)
  with first [symmetric]
  have "(\<lparr>status = 200, body = Fav f\<rparr> :: unit response, db1)
          = (\<lparr>status = 200, body = Fav fav_kolhapur\<rparr>, [fav_kolhapur])"
    by (rule trans)
  then have "f = fav_kolhapur" and "db1 = [fav_kolhapur]" by simp_all
  with first second show ?thesis by simp
qed

text \<open>
  A request that the validation accepts ends in one of three ways: the document already
  at the coordinates, a new document, or the 500 of a failed database operation.
\<close>

lemma post_favorites_store_failure:
  assumes "truthy n" and "find_fails env"
  shows "post_favorites env \<lparr>body_name = n, body_lat = JNum la, body_lon = JNum lo\<rparr> db
           = (\<lparr>status = 500, body = Error ''Save failed''\<rparr>, db)"
  using assms by (simp add: post_favorites_def findOne_def res_status_json_def)

subsection \<open>Deleting a favorite\<close>

lemma remove_by_id_absent: "i \<notin> fav_id ` set db \<Longrightarrow> remove_by_id i db = db"
  by (induction db) auto

text \<open>
  Claim C7. For every identifier, every collection and every behaviour of the database,
  the delete handler answers 200 with \<open>{ok: true}\<close>, whether a document has the
  identifier or not, and deleting the same identifier again gives the same answer.
\<close>

theorem delete_always_ok:
  "fst (delete_favorite env i db) = \<lparr>status = 200, body = Ack\<rparr>
   \<and> fst (delete_favorite env' i (snd (delete_favorite env i db))) = \<lparr>status = 200, body = Ack\<rparr>"
  by (simp add: delete_favorite_def res_json_def)

theorem delete_always_ok_witness:
  "fst (delete_favorite env_first ''65f000000000000000000009'' [fav_kolhapur])
     = (\<lparr>status = 200, body = Ack\<rparr> :: unit response)
   \<and> fst (delete_favorite env_second ''65f000000000000000000009''
            (snd (delete_favorite env_first ''65f000000000000000000009'' [fav_kolhapur]
                    :: unit response \<times> store)))
     = (\<lparr>status = 200, body = Ack\<rparr> :: unit response)"
  using delete_always_ok
          [of env_first "''65f000000000000000000009''" "[fav_kolhapur]" env_second]
  by simp

text \<open>An identifier that no document has leaves the collection as it was.\<close>

lemma delete_absent:
  "i \<notin> fav_id ` set db \<Longrightarrow> snd (delete_favorite env i db) = db"
  by (simp add: delete_favorite_def remove_by_id_absent)

text \<open>A document that is there is removed, and the second request finds nothing.\<close>

lemma delete_present:
  "\<not> delete_fails env \<Longrightarrow>
   snd (delete_favorite env (fav_id f) (f # db)) = db"
  by (simp add: delete_favorite_def)

subsection \<open>Numbers in a save request\<close>

text \<open>
  Claim C9. A save request whose \<open>lat\<close> or \<open>lon\<close> is not of type number is answered 400 with
  the error \<open>name, lat, lon required\<close> and changes nothing, whatever the name. This holds
  of strings that convert to numbers too: with such strings the save request is refused,
  while the forecast handler, given the same strings as query parameters, converts them
  and forwards the numbers to the forecast service.
\<close>

theorem post_favorites_needs_json_numbers:
  "(typeof (body_lat b) \<noteq> ''number'' \<or> typeof (body_lon b) \<noteq> ''number''
      \<longrightarrow> post_favorites env b db
            = (\<lparr>status = 400, body = Error ''name, lat, lon required''\<rparr>, db))
   \<and> (\<not> isNaN (StringToNumber s) \<and> \<not> isNaN (StringToNumber t)
      \<longrightarrow> post_favorites env \<lparr>body_name = n, body_lat = JStr s, body_lon = JStr t\<rparr> db
            = (\<lparr>status = 400, body = Error ''name, lat, lon required''\<rparr>, db)
          \<and> (\<exists>p. snd (forecast open_meteo
                         \<lparr>query_q = x, query_lat = Some s, query_lon = Some t, query_tz = z\<rparr>)
                    = [OpenMeteo p]
                  \<and> latitude p = StringToNumber s \<and> longitude p = StringToNumber t))"
proof -
  have a: "typeof (body_lat b) \<noteq> ''number'' \<or> typeof (body_lon b) \<noteq> ''number''
      \<longrightarrow> post_favorites env b db
            = (\<lparr>status = 400, body = Error ''name, lat, lon required''\<rparr>, db)"
    by (auto simp add: post_favorites_def res_status_json_def)
  have b: "post_favorites env \<lparr>body_name = n, body_lat = JStr s, body_lon = JStr t\<rparr> db
            = (\<lparr>status = 400, body = Error ''name, lat, lon required''\<rparr>, db)"
    by (simp add: post_favorites_def res_status_json_def)
  have c: "\<not> isNaN (StringToNumber s) \<and> \<not> isNaN (StringToNumber t)
      \<longrightarrow> (\<exists>p. snd (forecast open_meteo
                         \<lparr>query_q = x, query_lat = Some s, query_lon = Some t, query_tz = z\<rparr>)
                    = [OpenMeteo p]
                  \<and> latitude p = StringToNumber s \<and> longitude p = StringToNumber t)"
    by (simp add: forecast_def param_def Let_def split: reply.split)
  from a b c show ?thesis by blast
qed

theorem post_favorites_needs_json_numbers_witness:
  "post_favorites env_first body_strings []
     = (\<lparr>status = 400, body = Error ''name, lat, lon required''\<rparr> :: unit response, [])
   \<and> forecast_requests
       (snd (forecast open_meteo_down
               \<lparr>query_q = None, query_lat = Some ''16.7'', query_lon = Some ''74.24'',
                  query_tz = None\<rparr>))
     = [\<lparr>latitude = Fin (4700632111067955 / 281474976710656),
         longitude = Fin (5224175567749775 / 70368744177664),
         current_vars =
           ''temperature_2m,relative_humidity_2m,apparent_temperature,wind_speed_10m,precipitation'',
         hourly_vars = Some ''temperature_2m,precipitation,relative_humidity_2m,wind_speed_10m'',
         daily_vars =
           ''weathercode,temperature_2m_max,temperature_2m_min,precipitation_sum,uv_index_max,wind_speed_10m_max'',
         timezone = ''auto'', forecast_days = 7\<rparr>]"
proof -
  have ty: "typeof (body_lat body_strings) \<noteq> ''number'' \<or> typeof (body_lon body_strings) \<noteq> ''number''"
    by (simp add: body_strings_def)
  have nn: "\<not> isNaN (StringToNumber ''16.7'') \<and> \<not> isNaN (StringToNumber ''74.24'')"
    by (simp add: Number_16_7 Number_74_24 to_double_16_7 to_double_74_24 isNaN_def)
  from post_favorites_needs_json_numbers
         [of body_strings env_first "[]" "''16.7''" "''74.24''" "JStr ''Kolhapur''"
            open_meteo_down None None] ty nn
  obtain p where
    a: "post_favorites env_first body_strings []
          = (\<lparr>status = 400, body = Error ''name, lat, lon required''\<rparr> :: unit response, [])"
    and c: "snd (forecast open_meteo_down
                   \<lparr>query_q = None, query_lat = Some ''16.7'', query_lon = Some ''74.24'',
                      query_tz = None\<rparr>) = [OpenMeteo p]"
    and la: "latitude p = StringToNumber ''16.7''"
    by blast
  have "snd (forecast open_meteo_down
               \<lparr>query_q = None, query_lat = Some ''16.7'', query_lon = Some ''74.24'',
                  query_tz = None\<rparr>)
        = [OpenMeteo \<lparr>latitude = Fin (4700632111067955 / 281474976710656),
         longitude = Fin (5224175567749775 / 70368744177664),
         current_vars =
           ''temperature_2m,relative_humidity_2m,apparent_temperature,wind_speed_10m,precipitation'',
         hourly_vars = Some ''temperature_2m,precipitation,relative_humidity_2m,wind_speed_10m'',
         daily_vars =
           ''weathercode,temperature_2m_max,temperature_2m_min,precipitation_sum,uv_index_max,wind_speed_10m_max'',
         timezone = ''auto'', forecast_days = 7\<rparr>]"
    by (simp add: forecast_def param_def Number_16_7 Number_74_24 to_double_16_7 to_double_74_24
        isNaN_def or_default_def open_meteo_down_def Let_def)
  with a show ?thesis by (simp add: forecast_requests_def)
qed

section \<open>Properties of the client\<close>

subsection \<open>The precipitation bar\<close>

lemma daily_length: "daily_part f = Some d \<Longrightarrow> length (daily (Some f)) = length (time d)"
  by (simp add: daily_def)

lemma daily_nth:
  assumes "daily_part f = Some d" and "i < length (time d)"
  shows "daily (Some f) ! i =
           \<lparr>date = time d ! i,
            tmax = index (temperature_2m_max d) i,
            tmin = index (temperature_2m_min d) i,
            precip = index (precipitation_sum d) i,
            uv = opt_index (uv_index_max d) i,
            windmax = opt_index (wind_speed_10m_max d) i\<rparr>"
  using assms by (simp add: daily_def nth_enumerate_eq)

text \<open>
  Claim C8. For every day \<open>i\<close> of a loaded forecast whose precipitation sum is the number
  \<open>p\<close>, the height of the day's bar is \<open>min(100, p * 10)\<close> percent, with the minimum and
  the product of the language; when \<open>p\<close> is finite and the product rounds to the finite
  number \<open>r\<close>, the height is the lesser of 100 and \<open>r\<close>.
\<close>

theorem bar_height_formula:
  assumes "daily_part f = Some d" and "i < length (time d)"
    and "index (precipitation_sum d) i = JNum p"
  shows "i < length (daily (Some f))
         \<and> bar_height (daily (Some f) ! i) = Percent (Math_min (Fin 100) (js_mul p (Fin 10)))
         \<and> (\<forall>q r. p = Fin q \<and> to_double (q * 10) = Fin r
               \<longrightarrow> bar_height (daily (Some f) ! i) = Percent (Fin (min 100 r)))"
proof -
  have h: "bar_height (daily (Some f) ! i) = Percent (Math_min (Fin 100) (js_mul p (Fin 10)))"
    by (simp add: daily_nth [OF assms(1,2)] bar_height_def assms(3))
  show ?thesis
    using assms(2) by (auto simp add: h daily_length [OF assms(1)])
qed

theorem bar_height_formula_witness:
  "bar_height (daily (Some sample_forecast) ! 0) = Percent (Fin 100)
   \<and> bar_height (daily (Some sample_forecast) ! 1) = Percent (Fin 25)"
proof -
  have d: "daily_part sample_forecast = Some sample_daily" by (simp add: sample_forecast_def)
  have l0: "0 < length (time sample_daily)" and l1: "1 < length (time sample_daily)"
    by (simp_all add: sample_daily_def)
  have p0: "index (precipitation_sum sample_daily) 0 = JNum (Fin 12)"
    and p1: "index (precipitation_sum sample_daily) 1 = JNum (Fin (5 / 2))"
    by (simp_all add: sample_daily_def index_def)
  from bar_height_formula [OF d l0 p0] to_double_120
  have "bar_height (daily (Some sample_forecast) ! 0) = Percent (Fin (min 100 120))" by simp
  moreover from bar_height_formula [OF d l1 p1] to_double_25
  have "bar_height (daily (Some sample_forecast) ! 1) = Percent (Fin (min 100 25))" by simp
  ultimately show ?thesis by simp
qed

text \<open>
  The product of two finite numbers is never \<open>NaN\<close>, so the bar of a finite precipitation
  sum has a height of at most 100 percent; a missing sum (\<open>null\<close>) gives the height 0, and
  a sum beyond the end of the array (\<open>undefined\<close>) the height \<open>NaN\<close>.
\<close>

lemma bar_height_finite:
  "precip d = JNum (Fin q) \<Longrightarrow>
   \<exists>h. bar_height d = Percent h \<and> h \<noteq> NaN \<and> h \<noteq> PosInf \<and> (\<forall>r. h = Fin r \<longrightarrow> r \<le> 100)"
  by (cases "to_double (q * 10)") (auto simp add: bar_height_def to_double_not_NaN)

lemma bar_height_integer:
  assumes "precip d = JNum (Fin q)" and "q * 10 = of_int n" and "\<bar>n\<bar> < 2 ^ 53"
  shows "bar_height d = Percent (Fin (min 100 (of_int n)))"
  using assms(1,2) to_double_of_int [OF assms(3)] by (simp add: bar_height_def)

lemma bar_height_null: "precip d = JNull \<Longrightarrow> bar_height d = Percent (Fin 0)"
  by (simp add: bar_height_def to_double_def)

lemma bar_height_undefined: "precip d = JUndefined \<Longrightarrow> bar_height d = Percent NaN"
  by (simp add: bar_height_def)

subsection \<open>The list of favorites after a save\<close>

lemma strict_eq_sym: "strict_eq a b = strict_eq b a"
  by (auto simp: strict_eq_def)

lemma distinct_ids_Cons:
  "distinct_ids (f # fs) =
     (\<not> list_ex (\<lambda>g. strict_eq (id_field g) (id_field f)) fs \<and> distinct_ids fs)"
  by (simp add: strict_eq_sym [of "id_field f"])

text \<open>
  Claim C10. When no two entries of the client's list have the same identifier, the same
  holds of the list after the update of a save, whatever the reply: the update puts the
  reply in front only if no entry has its identifier and leaves the list as it is
  otherwise, and \<open>saveFavorite\<close> applies this update or none.
\<close>

theorem save_update_keeps_ids_distinct:
  assumes "distinct_ids p"
  shows "distinct_ids (save_update data p) \<and> distinct_ids (saveFavorite selected data p)"
proof -
  have u: "distinct_ids (save_update data p)"
    using assms by (simp add: save_update_def distinct_ids_Cons del: distinct_ids.simps)
  then show ?thesis
    using assms by (simp add: saveFavorite_def split: option.split)
qed

theorem save_update_keeps_ids_distinct_witness:
  "distinct_ids sample_favs
   \<and> save_update sample_reply sample_favs = sample_favs
   \<and> save_update sample_new sample_favs = sample_new # sample_favs
   \<and> distinct_ids (save_update sample_new sample_favs)"
proof -
  have d: "distinct_ids sample_favs"
    by (simp add: sample_favs_def strict_eq_def)
  have "save_update sample_reply sample_favs = sample_favs"
    and "save_update sample_new sample_favs = sample_new # sample_favs"
    by (simp_all add: save_update_def sample_reply_def sample_new_def sample_favs_def
        strict_eq_def)
  with d save_update_keeps_ids_distinct [OF d, of sample_new] show ?thesis by simp
qed

text \<open>For identifiers that are strings, \<open>distinct_ids\<close> is the distinctness of the list.\<close>

lemma distinct_ids_strings:
  "\<forall>f\<in>set p. \<exists>s. id_field f = JStr s \<Longrightarrow> distinct_ids p = distinct (map id_field p)"
  by (induction p) (auto simp add: list_ex_iff strict_eq_def)

end
